theory Spec2Isabelle
  imports Complex_Main
begin

section \<open>JavaScript numbers\<close>

text \<open>
  Widths, offsets and pointer positions are JavaScript numbers: IEEE 754 binary64
  values. A number is a finite double, \<open>Infinity\<close>, \<open>-Infinity\<close> or \<open>NaN\<close>. A finite
  double is kept as the real it denotes; the sign of zero is not kept. Every arithmetic
  operation rounds its exact result to the nearest double, ties to even, and overflows
  to an infinity, as the language does.
\<close>

datatype jsnum = Finite real | PosInfinity | NegInfinity | NaN

fun isFinite :: "jsnum \<Rightarrow> bool" where
  "isFinite (Finite a) = True"
| "isFinite PosInfinity = False"
| "isFinite NegInfinity = False"
| "isFinite NaN = False"

subsection \<open>Rounding to binary64\<close>

text \<open>
  The binary exponent of a positive real, cut to the exponents of binary64: the largest
  \<open>e\<close> in \<open>[-1022, 1023]\<close> with \<open>2 ^ e \<le> a\<close>, and \<open>-1022\<close> when there is none
  (the subnormal range). It is found by halving from 0 upwards or doubling from 0
  downwards.
\<close>

function exp_up :: "real \<Rightarrow> int \<Rightarrow> int" where
  "exp_up a e = (if 2 \<le> a \<and> e < 1023 then exp_up (a / 2) (e + 1) else e)"
  by pat_completeness auto
termination
  by (relation "measure (\<lambda>(a, e). nat (1023 - e))") auto

function exp_down :: "real \<Rightarrow> int \<Rightarrow> int" where
  "exp_down a e = (if a < 1 \<and> - 1022 < e then exp_down (a * 2) (e - 1) else e)"
  by pat_completeness auto
termination
  by (relation "measure (\<lambda>(a, e). nat (e + 1022))") auto

declare exp_up.simps [simp del]
declare exp_down.simps [simp del]

definition exponent :: "real \<Rightarrow> int" where
  "exponent a = (if 1 \<le> a then exp_up a 0 else exp_down a 0)"

text \<open>
  The unit in the last place at that exponent (52 fraction bits), and the magnitude in
  units of it, rounded to the nearest integer with ties to the even one.
\<close>

definition ulp :: "real \<Rightarrow> real" where
  "ulp a = 2 powi (exponent a - 52)"

definition round_half_even :: "real \<Rightarrow> int" where
  "round_half_even q =
     (let f = floor q; r = q - of_int f
      in if r < 1 / 2 then f else if 1 / 2 < r then f + 1 else if even f then f else f + 1)"

definition mantissa :: "real \<Rightarrow> int" where
  "mantissa a = round_half_even (a / ulp a)"

text \<open>
  The double nearest to a real. The rounded magnitude \<open>mantissa * ulp\<close> reaches
  \<open>2 ^ 1024\<close>, which is no double, exactly when the exponent is 1023 and the mantissa
  rounds up to \<open>2 ^ 53 = 9007199254740992\<close>: the result is then an infinity. This is
  also how a number literal and a measurement of the layout become a number.
\<close>

definition double :: "real \<Rightarrow> jsnum" where
  "double x =
     (if x = 0 then Finite 0
      else
        let a = \<bar>x\<bar>
        in if exponent a = 1023 \<and> 9007199254740992 \<le> mantissa a
           then (if x < 0 then NegInfinity else PosInfinity)
           else Finite (if x < 0 then - (of_int (mantissa a) * ulp a)
                        else of_int (mantissa a) * ulp a))"

subsection \<open>Operations\<close>

text \<open>Binary \<open>+\<close> and \<open>-\<close> on numbers.\<close>

fun js_add :: "jsnum \<Rightarrow> jsnum \<Rightarrow> jsnum" where
  "js_add NaN y = NaN"
| "js_add x NaN = NaN"
| "js_add (Finite a) (Finite b) = double (a + b)"
| "js_add (Finite a) PosInfinity = PosInfinity"
| "js_add (Finite a) NegInfinity = NegInfinity"
| "js_add PosInfinity (Finite b) = PosInfinity"
| "js_add NegInfinity (Finite b) = NegInfinity"
| "js_add PosInfinity PosInfinity = PosInfinity"
| "js_add NegInfinity NegInfinity = NegInfinity"
| "js_add PosInfinity NegInfinity = NaN"
| "js_add NegInfinity PosInfinity = NaN"

fun js_sub :: "jsnum \<Rightarrow> jsnum \<Rightarrow> jsnum" where
  "js_sub NaN y = NaN"
| "js_sub x NaN = NaN"
| "js_sub (Finite a) (Finite b) = double (a - b)"
| "js_sub (Finite a) PosInfinity = NegInfinity"
| "js_sub (Finite a) NegInfinity = PosInfinity"
| "js_sub PosInfinity (Finite b) = PosInfinity"
| "js_sub NegInfinity (Finite b) = NegInfinity"
| "js_sub PosInfinity NegInfinity = PosInfinity"
| "js_sub NegInfinity PosInfinity = NegInfinity"
| "js_sub PosInfinity PosInfinity = NaN"
| "js_sub NegInfinity NegInfinity = NaN"

text \<open>\<open>x / 2\<close>.\<close>

fun js_half :: "jsnum \<Rightarrow> jsnum" where
  "js_half (Finite a) = double (a / 2)"
| "js_half PosInfinity = PosInfinity"
| "js_half NegInfinity = NegInfinity"
| "js_half NaN = NaN"

text \<open>\<open>Math.abs\<close>, which is exact.\<close>

fun js_abs :: "jsnum \<Rightarrow> jsnum" where
  "js_abs (Finite a) = Finite \<bar>a\<bar>"
| "js_abs PosInfinity = PosInfinity"
| "js_abs NegInfinity = PosInfinity"
| "js_abs NaN = NaN"

text \<open>The comparison \<open>x < y\<close>: false as soon as one side is \<open>NaN\<close>.\<close>

fun js_less :: "jsnum \<Rightarrow> jsnum \<Rightarrow> bool" where
  "js_less NaN y = False"
| "js_less x NaN = False"
| "js_less (Finite a) (Finite b) = (a < b)"
| "js_less (Finite a) PosInfinity = True"
| "js_less (Finite a) NegInfinity = False"
| "js_less PosInfinity y = False"
| "js_less NegInfinity NegInfinity = False"
| "js_less NegInfinity y = True"

text \<open>\<open>Math.min\<close> and \<open>Math.max\<close> of two numbers: \<open>NaN\<close> as soon as one argument is.\<close>

fun js_min :: "jsnum \<Rightarrow> jsnum \<Rightarrow> jsnum" where
  "js_min NaN y = NaN"
| "js_min x NaN = NaN"
| "js_min NegInfinity y = NegInfinity"
| "js_min x NegInfinity = NegInfinity"
| "js_min PosInfinity y = y"
| "js_min x PosInfinity = x"
| "js_min (Finite a) (Finite b) = Finite (min a b)"

fun js_max :: "jsnum \<Rightarrow> jsnum \<Rightarrow> jsnum" where
  "js_max NaN y = NaN"
| "js_max x NaN = NaN"
| "js_max PosInfinity y = PosInfinity"
| "js_max x PosInfinity = PosInfinity"
| "js_max NegInfinity y = y"
| "js_max x NegInfinity = x"
| "js_max (Finite a) (Finite b) = Finite (max a b)"

text \<open>Strict equality \<open>===\<close> on numbers: \<open>NaN\<close> equals nothing, itself included.\<close>

definition js_strict_eq :: "jsnum \<Rightarrow> jsnum \<Rightarrow> bool" where
  "js_strict_eq x y = (x \<noteq> NaN \<and> y \<noteq> NaN \<and> x = y)"

text \<open>A number as a condition: 0 and \<open>NaN\<close> are falsy.\<close>

fun truthy :: "jsnum \<Rightarrow> bool" where
  "truthy (Finite a) = (a \<noteq> 0)"
| "truthy PosInfinity = True"
| "truthy NegInfinity = True"
| "truthy NaN = False"

text \<open>
  \<open>array[index]\<close>: \<open>undefined\<close> (here \<open>None\<close>) outside the array; \<open>undefined\<close> as an
  operand of arithmetic converts to \<open>NaN\<close>.
\<close>

definition js_nth :: "'a list \<Rightarrow> int \<Rightarrow> 'a option" where
  "js_nth xs i = (if 0 \<le> i \<and> i < int (length xs) then Some (xs ! nat i) else None)"

fun to_number :: "jsnum option \<Rightarrow> jsnum" where
  "to_number None = NaN"
| "to_number (Some x) = x"

text \<open>
  \<open>array.slice(0, end)\<close>: a negative \<open>end\<close> counts from the end of the array, and the
  bound is cut to the array.
\<close>

definition slice0 :: "'a list \<Rightarrow> int \<Rightarrow> 'a list" where
  "slice0 xs e =
     (let n = int (length xs);
          k = (if e < 0 then max (n + e) 0 else min e n)
      in take (nat k) xs)"

section \<open>Static helpers of Siema\<close>

text \<open>
  \<open>Siema.clamp(value, min, max) = Math.max(min, Math.min(max, value))\<close>. It is called
  on slide indices (integers) by \<open>goTo\<close> and \<open>moveBy\<close>, and on offsets (numbers, with
  infinite bounds) by \<open>_calculateTranslation\<close>.
\<close>

definition clamp :: "int \<Rightarrow> int \<Rightarrow> int \<Rightarrow> int" where
  "clamp v lo hi = max lo (min hi v)"

definition clamp_num :: "jsnum \<Rightarrow> jsnum \<Rightarrow> jsnum \<Rightarrow> jsnum" where
  "clamp_num v lo hi = js_max lo (js_min hi v)"

section \<open>The translation calculator\<close>

text \<open>
  \<open>_calculateTranslation(index, stickToEdges)\<close>, as a function of what it measures: the
  width of the selector, of the slider frame and of the slides, each read from the
  layout as a number.
\<close>

definition calculateTranslation :: "real \<Rightarrow> real \<Rightarrow> real list \<Rightarrow> int \<Rightarrow> bool \<Rightarrow> jsnum" where
  "calculateTranslation selectorWidth sliderFrameWidth slideWidths index stickToEdges =
     (let containerWidth = double selectorWidth;
          frameWidth = double sliderFrameWidth;
          widths = map double slideWidths;
          previousWidthSum = foldl js_add (Finite 0) (slice0 widths index);
          translation =
            js_sub (js_sub (js_half containerWidth) previousWidthSum)
                   (js_half (to_number (js_nth widths index)));
          maxClamp = (if stickToEdges then Finite 0 else PosInfinity);
          minClamp = (if stickToEdges then js_min (Finite 0) (js_sub containerWidth frameWidth)
                      else NegInfinity)
      in clamp_num translation minClamp maxClamp)"

section \<open>Outcomes\<close>

text \<open>
  A call either returns or throws. Both outcomes carry the state the object is left in,
  so that what a failed call changed can be stated. The three \<open>Error\<close> values thrown
  by \<open>remove\<close> and \<open>insert\<close> are told apart by their messages: "Item to remove doesn't
  exist", "Unable to inset it at this index" and "The same item in a carousel? Really?
  Nope". \<open>TypeError\<close> is what the language throws on calling a property that is not
  a function and on \<open>reduce\<close> of an empty array without an initial value.
  \<open>ListenerThrew\<close> stands for whatever a callback throws.
\<close>

datatype error =
  TypeError | ItemToRemoveDoesntExist | UnableToInsertAtIndex | SameItemInCarousel | ListenerThrew

datatype 'a outcome = Returned 'a | Threw error 'a

fun threw :: "'a outcome \<Rightarrow> bool" where
  "threw (Returned s) = False"
| "threw (Threw e s) = True"

fun state_after :: "'a outcome \<Rightarrow> 'a" where
  "state_after (Returned s) = s"
| "state_after (Threw e s) = s"

fun thrown :: "'a outcome \<Rightarrow> error option" where
  "thrown (Returned s) = None"
| "thrown (Threw e s) = Some e"

text \<open>
  Sequencing: the statements after a call run only when it returns; an exception
  propagates with the state at the throw. \<open>map_outcome\<close> puts the state of a part
  back into the whole.
\<close>

fun and_then :: "'a outcome \<Rightarrow> ('a \<Rightarrow> 'a outcome) \<Rightarrow> 'a outcome" where
  "and_then (Returned s) f = f s"
| "and_then (Threw e s) f = Threw e s"

fun map_outcome :: "('a \<Rightarrow> 'b) \<Rightarrow> 'a outcome \<Rightarrow> 'b outcome" where
  "map_outcome f (Returned s) = Returned (f s)"
| "map_outcome f (Threw e s) = Threw e (f s)"

section \<open>CachedEventRegistry\<close>

text \<open>
  A callback is a function object: it has an identity, by which the \<open>Set\<close> of listeners
  compares it, and a behaviour. Of the behaviour the model keeps whether a call throws,
  which may depend on the arguments and on all calls made before (\<open>fails\<close>, given the
  trace so far and the arguments). Every call of a callback is appended to the trace
  \<open>delivered\<close> (oldest first) as the pair of its identity and its arguments. A callback
  does not call back into the carousel.
\<close>

record 'p callback =
  ident :: nat
  fails :: "(nat \<times> 'p list) list \<Rightarrow> 'p list \<Rightarrow> bool"

text \<open>
  \<open>listeners\<close> is the \<open>Set\<close> in insertion order, without duplicates; \<open>lastArgs\<close> is the
  argument list of the last \<open>notify\<close> (the constructor's arguments before the first one).
\<close>

record 'p registry =
  listeners :: "'p callback list"
  lastArgs :: "'p list"
  delivered :: "(nat \<times> 'p list) list"

definition registry_new :: "'p list \<Rightarrow> 'p registry" where
  "registry_new initialArgs = \<lparr>listeners = [], lastArgs = initialArgs, delivered = []\<rparr>"

text \<open>\<open>Set.prototype.add\<close> and \<open>Set.prototype.delete\<close> on the insertion-ordered set.\<close>

definition set_add :: "'p callback \<Rightarrow> 'p callback list \<Rightarrow> 'p callback list" where
  "set_add cb ls = (if ident cb \<in> set (map ident ls) then ls else ls @ [cb])"

definition set_delete :: "'p callback \<Rightarrow> 'p callback list \<Rightarrow> 'p callback list" where
  "set_delete cb ls = filter (\<lambda>l. ident l \<noteq> ident cb) ls"

text \<open>
  Looking a method up by name on a \<open>Set\<close>, for the methods that take one element and
  change the set: \<open>add\<close> and \<open>delete\<close>. A \<open>Set\<close> has no property of any other such
  name (\<open>remove\<close> among them), so the lookup gives \<open>undefined\<close>, here \<open>None\<close>.
\<close>

definition set_method ::
  "string \<Rightarrow> ('p callback \<Rightarrow> 'p callback list \<Rightarrow> 'p callback list) option" where
  "set_method name =
     (if name = ''add'' then Some set_add
      else if name = ''delete'' then Some set_delete
      else None)"

text \<open>
  Calling the callback \<open>cb\<close> with \<open>args\<close>: the call is made, and its exception, if any,
  propagates.
\<close>

definition call_listener :: "'p callback \<Rightarrow> 'p list \<Rightarrow> 'p registry \<Rightarrow> 'p registry outcome" where
  "call_listener cb args r =
     (let r1 = r\<lparr>delivered := delivered r @ [(ident cb, args)]\<rparr>
      in if fails cb (delivered r) args then Threw ListenerThrew r1 else Returned r1)"

text \<open>
  \<open>listen(callback)\<close>: the model returns the registry; the function that the source
  returns is \<open>listen_handle callback\<close> below.
\<close>

definition listen :: "'p callback \<Rightarrow> 'p registry \<Rightarrow> 'p registry outcome" where
  "listen callback r =
     (let r1 = r\<lparr>listeners := set_add callback (listeners r)\<rparr>
      in if length (lastArgs r1) \<noteq> 0 then call_listener callback (lastArgs r1) r1
         else Returned r1)"

text \<open>
  The handle \<open>() => this._listeners.remove(callback)\<close>: it calls the property \<open>remove\<close>
  of the \<open>Set\<close>; calling \<open>undefined\<close> throws a \<open>TypeError\<close>.
\<close>

definition listen_handle :: "'p callback \<Rightarrow> 'p registry \<Rightarrow> 'p registry outcome" where
  "listen_handle callback r =
     (case set_method ''remove'' of
        None \<Rightarrow> Threw TypeError r
      | Some m \<Rightarrow> Returned (r\<lparr>listeners := m callback (listeners r)\<rparr>))"

text \<open>
  \<open>notify(...args)\<close>: \<open>forEach\<close> visits the listeners in insertion order and stops at
  the first call that throws.
\<close>

fun forEach_call :: "'p callback list \<Rightarrow> 'p list \<Rightarrow> 'p registry \<Rightarrow> 'p registry outcome" where
  "forEach_call [] args r = Returned r"
| "forEach_call (l # ls) args r = and_then (call_listener l args r) (forEach_call ls args)"

definition notify :: "'p list \<Rightarrow> 'p registry \<Rightarrow> 'p registry outcome" where
  "notify args r = forEach_call (listeners r) args (r\<lparr>lastArgs := args\<rparr>)"

section \<open>The carousel\<close>

text \<open>
  The settings of \<open>mergeSettings\<close> that the controller reads (the selector is resolved by
  the constructor and not kept here).
\<close>

record config =
  duration :: nat
  easing :: string
  stickToEdges :: bool
  draggable :: bool

definition default_config :: config where
  "default_config = \<lparr>duration = 200, easing = ''ease-out'', stickToEdges = True, draggable = True\<rparr>"

text \<open>
  What the layout holds at the time of a call: the width of the selector, of the slider
  frame, and of the wrapper of each element, as real quantities.
  \<open>getBoundingClientRect().width\<close> reads one of them as a number. The layout belongs to
  the render surface, so every operation that measures takes it as an argument.
\<close>

record 'a layout =
  containerWidth :: real
  frameWidth :: real
  slideWidth :: "'a \<Rightarrow> real"

text \<open>
  \<open>this._drag\<close>. \<open>startingTranslation\<close> is absent from the object that \<open>_attachEvents\<close>
  creates (\<open>None\<close>, read as \<open>undefined\<close>) and present after \<open>_clearDrag\<close>;
  \<open>letItGo\<close> is \<open>null\<close> (\<open>None\<close>) until the first touch move decides it.
\<close>

record drag =
  startingTranslation :: "jsnum option"
  startX :: jsnum
  endX :: jsnum
  startY :: jsnum
  letItGo :: "bool option"

text \<open>
  The fields of a \<open>Siema\<close> object. Elements are values of \<open>'a\<close>, compared by identity.
  \<open>innerSlides\<close> holds the wrappers, each named by the element it wraps.
  \<open>transition\<close> is the pair that \<open>Siema.transition\<close> prints into the frame's style and
  \<open>cursor\<close> the selector's cursor style.
\<close>

record 'a siema =
  config :: config
  eventRegistry :: "int registry"
  innerElements :: "'a list"
  innerSlides :: "'a list"
  currentSlide :: int
  currentTranslation :: jsnum
  transition :: "nat \<times> string"
  cursor :: string
  pointerDown :: bool
  drag :: drag

definition GRAB_CURSOR :: string where
  "GRAB_CURSOR = ''-webkit-grab''"

definition GRABBING_CURSOR :: string where
  "GRABBING_CURSOR = ''-webkit-grabbing''"

text \<open>
  \<open>Siema.closest(value, array)\<close>: \<open>reduce\<close> without an initial value starts from the
  first element and throws a \<open>TypeError\<close> on an empty array.
\<close>

definition closest :: "jsnum \<Rightarrow> jsnum list \<Rightarrow> error + jsnum" where
  "closest v array =
     (case array of
        [] \<Rightarrow> Inl TypeError
      | x # xs \<Rightarrow>
          Inr (foldl (\<lambda>prev curr.
                 if js_less (js_abs (js_sub curr v)) (js_abs (js_sub prev v)) then curr else prev)
               x xs))"

text \<open>
  \<open>array.indexOf(x)\<close>: the first position whose element is strictly equal to \<open>x\<close>, or
  \<open>-1\<close>. The equality is a parameter: identity for elements, \<open>===\<close> for numbers.
\<close>

fun index_from :: "('a \<Rightarrow> 'a \<Rightarrow> bool) \<Rightarrow> 'a \<Rightarrow> 'a list \<Rightarrow> int \<Rightarrow> int" where
  "index_from eq x [] k = - 1"
| "index_from eq x (y # ys) k = (if eq y x then k else index_from eq x ys (k + 1))"

definition indexOf :: "('a \<Rightarrow> 'a \<Rightarrow> bool) \<Rightarrow> 'a \<Rightarrow> 'a list \<Rightarrow> int" where
  "indexOf eq x xs = index_from eq x xs 0"

text \<open>
  \<open>array.splice(index, 1)\<close> and \<open>array.splice(index, 0, item)\<close>: the start is counted
  from the end when negative and cut to the array.
\<close>

definition splice_start :: "'a list \<Rightarrow> int \<Rightarrow> nat" where
  "splice_start xs i =
     (let n = int (length xs) in nat (if i < 0 then max (n + i) 0 else min i n))"

definition splice_delete1 :: "'a list \<Rightarrow> int \<Rightarrow> 'a list" where
  "splice_delete1 xs i = (let k = splice_start xs i in take k xs @ drop (Suc k) xs)"


subsection \<open>Setters\<close>

text \<open>
  \<open>_setCurrentSlide\<close>: the assignment, then \<open>notify\<close>, whose exception propagates after
  the assignment.
\<close>

definition setCurrentSlide :: "int \<Rightarrow> 'a siema \<Rightarrow> 'a siema outcome" where
  "setCurrentSlide slide s =
     (let s1 = s\<lparr>currentSlide := slide\<rparr>
      in map_outcome (\<lambda>r. s1\<lparr>eventRegistry := r\<rparr>)
           (notify [currentSlide s1] (eventRegistry s1)))"

definition setTranslation :: "jsnum \<Rightarrow> 'a siema \<Rightarrow> 'a siema" where
  "setTranslation v s = s\<lparr>currentTranslation := v\<rparr>"

definition setTransition :: "nat \<Rightarrow> string \<Rightarrow> 'a siema \<Rightarrow> 'a siema" where
  "setTransition d e s = s\<lparr>transition := (d, e)\<rparr>"

definition setCursor :: "string \<Rightarrow> 'a siema \<Rightarrow> 'a siema" where
  "setCursor c s = s\<lparr>cursor := c\<rparr>"

text \<open>
  \<open>_resetFrameSlides\<close>: a new frame with the configured transition and translation 0,
  the grab cursor when draggable, and one wrapper for each element.
\<close>

definition resetFrameSlides :: "'a siema \<Rightarrow> 'a siema" where
  "resetFrameSlides s =
     (let s1 = setTransition (duration (config s)) (easing (config s)) s;
          s2 = setTranslation (Finite 0) s1;
          s3 = (if draggable (config s2) then setCursor GRAB_CURSOR s2 else s2)
      in s3\<lparr>innerSlides := innerElements s3\<rparr>)"

text \<open>\<open>_calculateTranslation\<close> on the object: the calculator on what the layout holds.\<close>

definition measuredTranslation :: "'a layout \<Rightarrow> 'a siema \<Rightarrow> int \<Rightarrow> bool \<Rightarrow> jsnum" where
  "measuredTranslation L s index stick =
     calculateTranslation (containerWidth L) (frameWidth L)
       (map (slideWidth L) (innerSlides s)) index stick"

definition slideToIndex :: "'a layout \<Rightarrow> int \<Rightarrow> 'a siema \<Rightarrow> 'a siema" where
  "slideToIndex L index s =
     setTranslation (measuredTranslation L s index (stickToEdges (config s))) s"

definition slideToCurrent :: "'a layout \<Rightarrow> 'a siema \<Rightarrow> 'a siema" where
  "slideToCurrent L s = slideToIndex L (currentSlide s) s"

subsection \<open>Construction and the public operations\<close>

text \<open>\<open>_clearDrag\<close> and the drag object of \<open>_attachEvents\<close>.\<close>

definition neutral_drag :: drag where
  "neutral_drag =
     \<lparr>startingTranslation = Some (Finite 0), startX = Finite 0, endX = Finite 0,
      startY = Finite 0, letItGo = None\<rparr>"

definition initial_drag :: drag where
  "initial_drag =
     \<lparr>startingTranslation = None, startX = Finite 0, endX = Finite 0, startY = Finite 0,
      letItGo = None\<rparr>"

definition clearDrag :: "'a siema \<Rightarrow> 'a siema" where
  "clearDrag s = s\<lparr>drag := neutral_drag\<rparr>"

text \<open>
  The constructor on a selector that exists, with \<open>elements\<close> its children. The fields
  that the source leaves \<open>undefined\<close> until their first assignment (\<open>_currentSlide\<close>,
  \<open>_currentTranslation\<close>, and \<open>_pointerDown\<close> and \<open>_drag\<close> of a carousel that is not
  draggable, whose handlers are never attached) start here at a value that is
  overwritten or never read.
\<close>

definition new_siema :: "config \<Rightarrow> 'a layout \<Rightarrow> 'a list \<Rightarrow> 'a siema outcome" where
  "new_siema cfg L elements =
     (let s0 = \<lparr>config = cfg, eventRegistry = registry_new [], innerElements = elements,
                innerSlides = [], currentSlide = 0, currentTranslation = Finite 0,
                transition = (0, []), cursor = [], pointerDown = False, drag = initial_drag\<rparr>;
          s1 = resetFrameSlides s0
      in and_then (setCurrentSlide 0 s1) (\<lambda>s2. Returned (slideToCurrent L s2)))"

definition onChange :: "int callback \<Rightarrow> 'a siema \<Rightarrow> 'a siema outcome" where
  "onChange callback s =
     map_outcome (\<lambda>r. s\<lparr>eventRegistry := r\<rparr>) (listen callback (eventRegistry s))"

definition goTo :: "'a layout \<Rightarrow> int \<Rightarrow> 'a siema \<Rightarrow> 'a siema outcome" where
  "goTo L index s =
     (let beforeChange = currentSlide s
      in and_then (setCurrentSlide (clamp index 0 (int (length (innerElements s)))) s)
           (\<lambda>s1. Returned (if beforeChange \<noteq> currentSlide s1 then slideToCurrent L s1 else s1)))"

definition moveBy :: "'a layout \<Rightarrow> int \<Rightarrow> 'a siema \<Rightarrow> 'a siema outcome" where
  "moveBy L howManySlides s =
     goTo L (clamp (currentSlide s + howManySlides) 0 (int (length (innerSlides s)))) s"

definition prev :: "'a layout \<Rightarrow> int \<Rightarrow> 'a siema \<Rightarrow> 'a siema outcome" where
  "prev L howManySlides s = moveBy L (- howManySlides) s"

definition next_slide :: "'a layout \<Rightarrow> int \<Rightarrow> 'a siema \<Rightarrow> 'a siema outcome" where
  "next_slide L howManySlides s = moveBy L howManySlides s"

definition remove :: "int \<Rightarrow> 'a siema \<Rightarrow> 'a siema outcome" where
  "remove index s =
     (if index < 0 \<or> index \<ge> int (length (innerElements s))
      then Threw ItemToRemoveDoesntExist s
      else
        and_then
          (setCurrentSlide
             (if index \<le> currentSlide s then currentSlide s - 1 else currentSlide s) s)
          (\<lambda>s1. Returned (resetFrameSlides
             (s1\<lparr>innerElements := splice_delete1 (innerElements s1) index\<rparr>))))"


subsection \<open>The gesture handlers\<close>

text \<open>
  \<open>_updateAfterDrag\<close>: nearest-slide resolution. The throw of \<open>Siema.closest\<close> leaves
  the object as it was on entry.
\<close>

definition updateAfterDrag :: "'a layout \<Rightarrow> 'a siema \<Rightarrow> 'a siema outcome" where
  "updateAfterDrag L s =
     (let translations =
            map (\<lambda>i. measuredTranslation L s (int i) False) [0 ..< length (innerSlides s)]
      in case closest (currentTranslation s) translations of
           Inl e \<Rightarrow> Threw e s
         | Inr closestTranslation \<Rightarrow>
             and_then (setCurrentSlide (indexOf js_strict_eq closestTranslation translations) s)
               (\<lambda>s1. Returned (slideToCurrent L s1)))"

definition resizeHandler :: "'a layout \<Rightarrow> 'a siema \<Rightarrow> 'a siema" where
  "resizeHandler L s = slideToCurrent L s"

text \<open>
  A touch event is given by the position \<open>(pageX, pageY)\<close> of its first touch, a mouse
  event by its \<open>pageX\<close>; the handlers read them as numbers.
\<close>

definition touchstartHandler :: "real \<times> real \<Rightarrow> 'a siema \<Rightarrow> 'a siema" where
  "touchstartHandler e s =
     (let s1 = s\<lparr>pointerDown := True\<rparr>;
          s2 = s1\<lparr>drag := (drag s1)\<lparr>startX := double (fst e)\<rparr>\<rparr>
      in s2\<lparr>drag := (drag s2)\<lparr>startY := double (snd e)\<rparr>\<rparr>)"

definition touchendHandler :: "'a layout \<Rightarrow> 'a siema \<Rightarrow> 'a siema outcome" where
  "touchendHandler L s =
     (let s1 = s\<lparr>pointerDown := False\<rparr>
      in and_then (if truthy (endX (drag s1)) then updateAfterDrag L s1 else Returned s1)
           (\<lambda>s2. Returned
              (clearDrag (setTransition (duration (config s2)) (easing (config s2)) s2))))"

definition touchmoveHandler :: "'a layout \<Rightarrow> real \<times> real \<Rightarrow> 'a siema \<Rightarrow> 'a siema" where
  "touchmoveHandler L e s =
     (let s1 = (if letItGo (drag s) = None
                then s\<lparr>drag := (drag s)\<lparr>letItGo :=
                       Some (js_less (js_abs (js_sub (startY (drag s)) (double (snd e))))
                                     (js_abs (js_sub (startX (drag s)) (double (fst e)))))\<rparr>\<rparr>
                else s)
      in if pointerDown s1 \<and> letItGo (drag s1) = Some True
         then
           let s2 = s1\<lparr>drag := (drag s1)\<lparr>endX := double (fst e)\<rparr>\<rparr>;
               s3 = setTransition 0 (easing (config s2)) s2;
               translation =
                 js_sub (measuredTranslation L s3 (currentSlide s3) (stickToEdges (config s3)))
                        (js_sub (startX (drag s3)) (endX (drag s3)))
           in setTranslation translation s3
         else s1)"

definition mousedownHandler :: "real \<Rightarrow> 'a siema \<Rightarrow> 'a siema" where
  "mousedownHandler pageX s =
     (let s1 = s\<lparr>pointerDown := True\<rparr>;
          s2 = s1\<lparr>drag := (drag s1)\<lparr>startX := double pageX\<rparr>\<rparr>;
          s3 = s2\<lparr>drag := (drag s2)\<lparr>startingTranslation := Some (currentTranslation s2)\<rparr>\<rparr>
      in setCursor GRABBING_CURSOR s3)"

definition mouseupHandler :: "'a layout \<Rightarrow> 'a siema \<Rightarrow> 'a siema outcome" where
  "mouseupHandler L s =
     (let s1 = s\<lparr>pointerDown := False\<rparr>;
          s2 = setCursor GRAB_CURSOR s1;
          s3 = setTransition (duration (config s2)) (easing (config s2)) s2
      in and_then (updateAfterDrag L s3) (\<lambda>s4. Returned (clearDrag s4)))"



section \<open>Notions used in the statements\<close>

text \<open>
  The offset of the specification, \<open>containerWidth / 2 - prefixSum - itemWidths[i] / 2\<close>,
  with every operation that of numbers and the prefix sum taken from the left,
  starting at 0.
\<close>

definition centred_offset :: "real \<Rightarrow> real list \<Rightarrow> nat \<Rightarrow> jsnum" where
  "centred_offset cw widths i =
     js_sub (js_sub (js_half (double cw)) (foldl js_add (Finite 0) (map double (take i widths))))
            (js_half (double (widths ! i)))"

text \<open>A layout in which every slide has the same width.\<close>

definition uniform_layout :: "real \<Rightarrow> real \<Rightarrow> real \<Rightarrow> 'a layout" where
  "uniform_layout cw fw w = \<lparr>containerWidth = cw, frameWidth = fw, slideWidth = (\<lambda>x. w)\<rparr>"

text \<open>
  Callbacks: one that never throws, and one that throws exactly when it is called with
  the arguments \<open>p\<close>.
\<close>

definition quiet_callback :: "nat \<Rightarrow> 'p callback" where
  "quiet_callback n = \<lparr>ident = n, fails = (\<lambda>tr args. False)\<rparr>"

definition callback_failing_on :: "nat \<Rightarrow> 'p list \<Rightarrow> 'p callback" where
  "callback_failing_on n p = \<lparr>ident = n, fails = (\<lambda>tr args. args = p)\<rparr>"

text \<open>
  The carousel of the examples: three slides of width 100 in a container and a frame of
  width 300, default settings, as the constructor leaves it; and the same after
  \<open>onChange\<close> of a callback.
\<close>

definition example_carousel :: "nat siema" where
  "example_carousel = state_after (new_siema default_config (uniform_layout 300 300 100) [10, 20, 30])"

definition example_with :: "int callback \<Rightarrow> nat siema" where
  "example_with cb = state_after (onChange cb example_carousel)"

text \<open>
  A caller that makes a sequence of \<open>goTo\<close> and \<open>onChange\<close> calls, each \<open>goTo\<close> with the
  layout at its time, and goes on after a call that throws.
\<close>

datatype 'a call = GoTo "'a layout" int | OnChange "int callback"

fun perform :: "'a call \<Rightarrow> 'a siema \<Rightarrow> 'a siema outcome" where
  "perform (GoTo L index) s = goTo L index s"
| "perform (OnChange cb) s = onChange cb s"

definition run_calls :: "'a call list \<Rightarrow> 'a siema \<Rightarrow> 'a siema" where
  "run_calls calls s = foldl (\<lambda>s' c. state_after (perform c s')) s calls"


section \<open>Properties of the rounding\<close>

lemma two_powi_step: "(2::real) powi (r - e) = 2 powi (r - (e + 1)) * 2"
  using power_int_add [of "2::real" "r - (e + 1)" 1] by simp

lemma exp_up_ge: "e \<le> exp_up a e"
proof (induction a e rule: exp_up.induct)
  case (1 a e)
  show ?case
  proof (cases "2 \<le> a \<and> e < 1023")
    case True
    from 1 [OF True] have "e + 1 \<le> exp_up (a / 2) (e + 1)" .
    with True show ?thesis by (subst exp_up.simps) simp
  next
    case False
    then have "exp_up a e = e" by (subst exp_up.simps) auto
    then show ?thesis by simp
  qed
qed

lemma exp_up_le: "e \<le> 1023 \<Longrightarrow> exp_up a e \<le> 1023"
proof (induction a e rule: exp_up.induct)
  case (1 a e)
  show ?case
  proof (cases "2 \<le> a \<and> e < 1023")
    case True
    from 1(1) [OF True] True have "exp_up (a / 2) (e + 1) \<le> 1023" by simp
    with True show ?thesis by (subst exp_up.simps) simp
  next
    case False
    then have "exp_up a e = e" by (subst exp_up.simps) auto
    with 1(2) show ?thesis by simp
  qed
qed

lemma exp_up_lower: "1 \<le> a \<Longrightarrow> 2 powi (exp_up a e - e) \<le> a"
proof (induction a e rule: exp_up.induct)
  case (1 a e)
  show ?case
  proof (cases "2 \<le> a \<and> e < 1023")
    case True
    then have "1 \<le> a / 2" by simp
    from 1(1) [OF True this] have ih: "2 powi (exp_up (a / 2) (e + 1) - (e + 1)) \<le> a / 2" .
    have "(2::real) powi (exp_up (a / 2) (e + 1) - e)
        = 2 powi (exp_up (a / 2) (e + 1) - (e + 1)) * 2"
      by (rule two_powi_step)
    with ih have "2 powi (exp_up (a / 2) (e + 1) - e) \<le> a" by simp
    with True show ?thesis by (subst exp_up.simps) simp
  next
    case False
    then have "exp_up a e = e" by (subst exp_up.simps) auto
    with 1(2) show ?thesis by simp
  qed
qed

lemma exp_up_upper: "exp_up a e < 1023 \<Longrightarrow> a < 2 * 2 powi (exp_up a e - e)"
proof (induction a e rule: exp_up.induct)
  case (1 a e)
  show ?case
  proof (cases "2 \<le> a \<and> e < 1023")
    case True
    then have eq: "exp_up a e = exp_up (a / 2) (e + 1)" by (subst exp_up.simps) simp
    with 1(2) have "exp_up (a / 2) (e + 1) < 1023" by simp
    from 1(1) [OF True this] have ih: "a / 2 < 2 * 2 powi (exp_up (a / 2) (e + 1) - (e + 1))" .
    have "(2::real) powi (exp_up (a / 2) (e + 1) - e)
        = 2 powi (exp_up (a / 2) (e + 1) - (e + 1)) * 2"
      by (rule two_powi_step)
    with ih have "a < 2 * 2 powi (exp_up (a / 2) (e + 1) - e)" by simp
    with eq show ?thesis by simp
  next
    case False
    then have eq: "exp_up a e = e" by (subst exp_up.simps) auto
    with 1(2) False show ?thesis by simp
  qed
qed

lemma exp_down_le: "exp_down a e \<le> e"
proof (induction a e rule: exp_down.induct)
  case (1 a e)
  show ?case
  proof (cases "a < 1 \<and> - 1022 < e")
    case True
    from 1 [OF True] have "exp_down (a * 2) (e - 1) \<le> e - 1" .
    with True show ?thesis by (subst exp_down.simps) simp
  next
    case False
    then have "exp_down a e = e" by (subst exp_down.simps) auto
    then show ?thesis by simp
  qed
qed

lemma exp_down_upper: "a < 2 \<Longrightarrow> a < 2 * 2 powi (exp_down a e - e)"
proof (induction a e rule: exp_down.induct)
  case (1 a e)
  show ?case
  proof (cases "a < 1 \<and> - 1022 < e")
    case True
    then have eq: "exp_down a e = exp_down (a * 2) (e - 1)" by (subst exp_down.simps) simp
    from True have "a * 2 < 2" by simp
    from 1(1) [OF True this] have ih: "a * 2 < 2 * 2 powi (exp_down (a * 2) (e - 1) - (e - 1))" .
    have "(2::real) powi (exp_down (a * 2) (e - 1) - (e - 1))
        = 2 powi (exp_down (a * 2) (e - 1) - e) * 2"
      using two_powi_step [of "exp_down (a * 2) (e - 1)" "e - 1"] by simp
    with ih have "a < 2 * 2 powi (exp_down (a * 2) (e - 1) - e)" by simp
    with eq show ?thesis by simp
  next
    case False
    then have eq: "exp_down a e = e" by (subst exp_down.simps) auto
    with 1(2) show ?thesis by simp
  qed
qed

lemma exponent_le: "exponent a \<le> 1023"
  using exp_up_le [of 0 a] exp_down_le [of a 0] by (simp add: exponent_def)

lemma exponent_upper: "exponent a < 1023 \<Longrightarrow> a < 2 * 2 powi (exponent a)"
  using exp_up_upper [of a 0] exp_down_upper [of a 0] by (auto simp add: exponent_def)

lemma exponent_lower: "1 \<le> a \<Longrightarrow> 0 \<le> exponent a \<and> 2 powi (exponent a) \<le> a"
  using exp_up_lower [of a 0] exp_up_ge [of 0 a] by (simp add: exponent_def)

lemma round_half_even_bounds:
  "floor q \<le> round_half_even q \<and> round_half_even q \<le> floor q + 1"
  by (simp add: round_half_even_def Let_def)

lemma round_half_even_of_int: "round_half_even (of_int j) = j"
  by (simp add: round_half_even_def Let_def)

lemma round_half_even_le: "q < of_int N \<Longrightarrow> round_half_even q \<le> N"
proof -
  assume "q < of_int N"
  then have "floor q < N" by (simp add: floor_less_iff)
  with round_half_even_bounds [of q] show ?thesis by simp
qed

lemma round_half_even_nonneg: "0 \<le> q \<Longrightarrow> 0 \<le> round_half_even q"
proof -
  assume "0 \<le> q"
  then have "0 \<le> floor q" by simp
  with round_half_even_bounds [of q] show ?thesis by linarith
qed

lemma double_not_NaN: "double x \<noteq> NaN"
  by (simp add: double_def Let_def)

lemma ulp_pos: "0 < ulp a"
  by (simp add: ulp_def)

lemma mantissa_nonneg: "0 \<le> a \<Longrightarrow> 0 \<le> mantissa a"
  unfolding mantissa_def using ulp_pos [of a] by (intro round_half_even_nonneg) simp

lemma magnitude_bound:
  assumes "\<not> (exponent a = 1023 \<and> 9007199254740992 \<le> mantissa a)"
  shows "(of_int (mantissa a) :: real) * ulp a < 2 ^ 1024"
proof (cases "exponent a = 1023")
  case True
  with assms have "mantissa a < 9007199254740992" by simp
  then have "(of_int (mantissa a) :: real) < 9007199254740992" by linarith
  moreover from True have "ulp a = 2 ^ 971" by (simp add: ulp_def)
  ultimately have "of_int (mantissa a) * ulp a < 9007199254740992 * (2::real) ^ 971" by simp
  also have "\<dots> = 2 ^ 1024" by simp
  finally show ?thesis .
next
  case False
  with exponent_le [of a] have e: "exponent a \<le> 1022" by simp
  then have "exponent a < 1023" by simp
  from exponent_upper [OF this] have a: "a < 2 * 2 powi (exponent a)" .
  have split: "(2::real) powi (exponent a) = ulp a * 2 ^ 52"
    using power_int_add [of "2::real" "exponent a - 52" 52] by (simp add: ulp_def)
  from a ulp_pos [of a] have "a / ulp a < 2 * 2 powi (exponent a) / ulp a"
    by (simp add: divide_strict_right_mono)
  also have "\<dots> = 2 * 2 ^ 52" using ulp_pos [of a] by (simp add: split)
  also have "\<dots> = of_int 9007199254740992" by simp
  finally have "mantissa a \<le> 9007199254740992"
    unfolding mantissa_def by (rule round_half_even_le)
  then have "(of_int (mantissa a) :: real) \<le> 9007199254740992" by linarith
  with ulp_pos [of a] have "of_int (mantissa a) * ulp a \<le> 9007199254740992 * ulp a" by simp
  also have "\<dots> = 2 * 2 powi (exponent a)" by (simp add: split)
  also have "\<dots> \<le> 2 * 2 powi 1022"
    using e power_int_increasing [of "exponent a" 1022 "2::real"] by simp
  also have "\<dots> < (2::real) ^ 1024" by simp
  finally show ?thesis .
qed

lemma double_Finite_bound:
  assumes "double x = Finite m"
  shows "\<bar>m\<bar> < 2 ^ 1024"
proof (cases "x = 0")
  case True
  with assms show ?thesis by (simp add: double_def)
next
  case False
  let ?a = "\<bar>x\<bar>"
  from False assms have fin: "\<not> (exponent ?a = 1023 \<and> 9007199254740992 \<le> mantissa ?a)"
    by (auto simp add: double_def Let_def split: if_splits)
  with False assms have m: "\<bar>m\<bar> = \<bar>of_int (mantissa ?a) * ulp ?a\<bar>"
    by (auto simp add: double_def Let_def split: if_splits)
  have "0 \<le> (of_int (mantissa ?a) :: real) * ulp ?a"
    using mantissa_nonneg [of ?a] ulp_pos [of ?a] by simp
  with m magnitude_bound [OF fin] show ?thesis by simp
qed

lemma double_Finite_if:
  assumes "\<bar>y\<bar> < 2 ^ 1023"
  shows "\<exists>m. double y = Finite m"
proof (cases "exponent \<bar>y\<bar> = 1023 \<and> 9007199254740992 \<le> mantissa \<bar>y\<bar>")
  case True
  then have u: "ulp \<bar>y\<bar> = 2 ^ 971" by (simp add: ulp_def)
  from assms have "\<bar>y\<bar> / ulp \<bar>y\<bar> < 2 ^ 1023 / 2 ^ 971"
    unfolding u by (rule divide_strict_right_mono) simp
  also have "\<dots> = of_int 4503599627370496" by simp
  finally have "mantissa \<bar>y\<bar> \<le> 4503599627370496"
    unfolding mantissa_def by (rule round_half_even_le)
  with True show ?thesis by simp
next
  case False
  show ?thesis
  proof (cases "y = 0")
    case True
    then show ?thesis by (simp add: double_def)
  next
    case nz: False
    have "double y = Finite (if y < 0 then - (of_int (mantissa \<bar>y\<bar>) * ulp \<bar>y\<bar>)
                        else of_int (mantissa \<bar>y\<bar>) * ulp \<bar>y\<bar>)"
      using nz False by (simp only: double_def Let_def if_False)
    then show ?thesis by blast
  qed
qed

lemma double_of_int:
  assumes "\<bar>k\<bar> \<le> 9007199254740992"
  shows "double (of_int k) = Finite (of_int k)"
proof (cases "k = 0")
  case True
  then show ?thesis by (simp add: double_def)
next
  case False
  define a :: real where "a = of_int \<bar>k\<bar>"
  have abs: "\<bar>of_int k :: real\<bar> = a" by (simp add: a_def)
  from False have "1 \<le> \<bar>k\<bar>" by simp
  then have a1: "1 \<le> a" unfolding a_def by (simp only: of_int_1_le_iff)
  from exponent_lower [OF a1] have e0: "0 \<le> exponent a" and low: "2 powi (exponent a) \<le> a"
    by simp_all
  from assms have "a \<le> of_int 9007199254740992" unfolding a_def by (simp only: of_int_le_iff)
  then have ahi: "a \<le> 2 ^ 53" by simp
  have "(2::real) powi (53::int) = 2 ^ 53" by simp
  with low ahi have "(2::real) powi (exponent a) \<le> 2 powi (53::int)" by (simp only:)
  then have e53: "exponent a \<le> 53"
    by (rule power_int_le_imp_le_exp [rotated]) simp_all
  obtain j :: int where j: "a / ulp a = of_int j"
  proof (cases "exponent a \<le> 52")
    case True
    then have "ulp a = 1 / 2 ^ nat (52 - exponent a)"
      by (simp add: ulp_def power_int_def inverse_eq_divide power_one_over)
    then have "a / ulp a = of_int (\<bar>k\<bar> * 2 ^ nat (52 - exponent a))" by (simp add: a_def)
    then show ?thesis by (rule that)
  next
    case False
    with e53 have e: "exponent a = 53" by simp
    then have u2: "ulp a = 2" by (simp add: ulp_def)
    from low e have "2 ^ 53 \<le> a" by simp
    with ahi have "a = 2 ^ 53" by simp
    with u2 have "a / ulp a = of_int 4503599627370496" by simp
    then show ?thesis by (rule that)
  qed
  then have n: "mantissa a = j" by (simp add: mantissa_def round_half_even_of_int)
  have recover: "of_int j * ulp a = a"
    using j ulp_pos [of a] by (simp add: field_simps)
  from e53 have ne: "exponent a \<noteq> 1023" by simp
  have "of_int k \<noteq> (0::real)" using False by simp
  then have "double (of_int k)
      = Finite (if (of_int k :: real) < 0 then - a else a)"
    by (simp add: double_def Let_def abs ne n recover)
  also have "(if (of_int k :: real) < 0 then - a else a) = of_int k"
    by (simp add: a_def)
  finally show ?thesis .
qed

lemma exponent_top: "2 ^ 1023 \<le> a \<Longrightarrow> exponent a = 1023"
proof (rule ccontr)
  assume a: "2 ^ 1023 \<le> a" and "exponent a \<noteq> 1023"
  with exponent_le [of a] have e: "exponent a \<le> 1022" by simp
  then have "exponent a < 1023" by simp
  from exponent_upper [OF this] have "a < 2 * 2 powi (exponent a)" .
  also have "\<dots> \<le> 2 * 2 powi 1022"
    using e power_int_increasing [of "exponent a" 1022 "2::real"] by simp
  also have "\<dots> = (2::real) ^ 1023" by simp
  finally show False using a by simp
qed

lemma double_top: "double (2 ^ 1023) = Finite (2 ^ 1023)"
proof -
  have e: "exponent (2 ^ 1023) = 1023" by (rule exponent_top) simp
  then have u: "ulp (2 ^ 1023) = 2 ^ 971" by (simp add: ulp_def)
  have "(2::real) ^ 1023 / 2 ^ 971 = of_int 4503599627370496" by simp
  then have m: "mantissa (2 ^ 1023) = 4503599627370496"
    by (simp only: mantissa_def u round_half_even_of_int)
  have "(of_int 4503599627370496 :: real) * 2 ^ 971 = 2 ^ 1023" by simp
  with e u m show ?thesis by (simp add: double_def)
qed

lemma double_overflow: "double (2 ^ 1023 + 2 ^ 1023) = PosInfinity"
proof -
  have e: "exponent (2 ^ 1023 + 2 ^ 1023) = 1023" by (rule exponent_top) simp
  then have u: "ulp (2 ^ 1023 + 2 ^ 1023) = 2 ^ 971" by (simp add: ulp_def)
  have "((2::real) ^ 1023 + 2 ^ 1023) / 2 ^ 971 = of_int 9007199254740992" by simp
  then have m: "mantissa (2 ^ 1023 + 2 ^ 1023) = 9007199254740992"
    by (simp only: mantissa_def u round_half_even_of_int)
  with e show ?thesis by (simp add: double_def)
qed

lemma double_code [code]:
  "double x =
     (if x = of_int (floor x) \<and> \<bar>floor x\<bar> \<le> 9007199254740992 then Finite x
      else if x = 0 then Finite 0
      else
        let a = \<bar>x\<bar>
        in if exponent a = 1023 \<and> 9007199254740992 \<le> mantissa a
           then (if x < 0 then NegInfinity else PosInfinity)
           else Finite (if x < 0 then - (of_int (mantissa a) * ulp a)
                        else of_int (mantissa a) * ulp a))"
proof (cases "x = of_int (floor x) \<and> \<bar>floor x\<bar> \<le> 9007199254740992")
  case True
  then have "double (of_int (floor x)) = Finite (of_int (floor x))"
    by (intro double_of_int) simp
  with True show ?thesis by simp
next
  case False
  then show ?thesis by (simp only: double_def if_False)
qed

lemma isFinite_double_half:
  assumes "isFinite (double w)"
  shows "isFinite (js_half (double w))"
proof -
  from assms obtain m where m: "double w = Finite m" by (cases "double w") simp_all
  from double_Finite_bound [OF m] have "\<bar>m / 2\<bar> < 2 ^ 1023" by simp
  from double_Finite_if [OF this] m show ?thesis by auto
qed

lemma js_add_not_NaN: "x \<noteq> NaN \<Longrightarrow> isFinite y \<Longrightarrow> js_add x y \<noteq> NaN"
  by (cases x; cases y) (simp_all add: double_not_NaN)

lemma js_sub_not_NaN_right: "x \<noteq> NaN \<Longrightarrow> isFinite y \<Longrightarrow> js_sub x y \<noteq> NaN"
  by (cases x; cases y) (simp_all add: double_not_NaN)

lemma js_sub_not_NaN_left: "isFinite x \<Longrightarrow> y \<noteq> NaN \<Longrightarrow> js_sub x y \<noteq> NaN"
  by (cases x; cases y) (simp_all add: double_not_NaN)

lemma js_sub_NaN [simp]: "js_sub x NaN = NaN"
  by (cases x) simp_all

lemma js_min_NaN [simp]: "js_min x NaN = NaN"
  by (cases x) simp_all

lemma js_max_NaN [simp]: "js_max x NaN = NaN"
  by (cases x) simp_all

lemma js_min_not_NaN: "x \<noteq> NaN \<Longrightarrow> y \<noteq> NaN \<Longrightarrow> js_min x y \<noteq> NaN"
  by (cases x; cases y) simp_all

lemma foldl_js_add_not_NaN:
  "acc \<noteq> NaN \<Longrightarrow> \<forall>w\<in>set ws. isFinite w \<Longrightarrow> foldl js_add acc ws \<noteq> NaN"
  by (induction ws arbitrary: acc) (simp_all add: js_add_not_NaN)

lemma clamp_num_unbounded: "clamp_num t NegInfinity PosInfinity = t"
  by (cases t) (simp_all add: clamp_num_def)

lemma clamp_num_cases:
  assumes "t \<noteq> NaN" and "lo \<noteq> NaN" and "\<not> js_less (Finite 0) lo"
  shows "clamp_num t lo (Finite 0)
    = (if js_less t lo then lo else if js_less (Finite 0) t then Finite 0 else t)"
  using assms by (cases t; cases lo) (auto simp add: clamp_num_def min_def max_def)

lemma js_min_zero_bound: "\<not> js_less (Finite 0) (js_min (Finite 0) x)"
  by (cases x) (simp_all add: min_def)

section \<open>Properties of the calculator\<close>

lemma slice0_in_range:
  "0 \<le> i \<Longrightarrow> i < int (length xs) \<Longrightarrow> slice0 xs i = take (nat i) xs"
  by (simp add: slice0_def Let_def min_def)

lemma js_nth_in_range:
  "0 \<le> i \<Longrightarrow> i < int (length xs) \<Longrightarrow> js_nth xs i = Some (xs ! nat i)"
  by (simp add: js_nth_def)

lemma js_nth_out_of_range:
  "i < 0 \<or> int (length xs) \<le> i \<Longrightarrow> js_nth xs i = None"
  by (auto simp add: js_nth_def)

lemma calculateTranslation_in_range:
  assumes "0 \<le> index" and "index < int (length widths)"
  shows "calculateTranslation cw fw widths index stick
    = clamp_num (centred_offset cw widths (nat index))
        (if stick then js_min (Finite 0) (js_sub (double cw) (double fw)) else NegInfinity)
        (if stick then Finite 0 else PosInfinity)"
  using assms
  by (simp add: calculateTranslation_def centred_offset_def Let_def slice0_in_range
      js_nth_in_range take_map)

lemma calculateTranslation_out_of_range:
  "index < 0 \<or> int (length widths) \<le> index \<Longrightarrow>
   calculateTranslation cw fw widths index stick = NaN"
  by (simp add: calculateTranslation_def Let_def js_nth_out_of_range clamp_num_def)

lemma centred_offset_not_NaN:
  assumes "i < length widths" and "isFinite (double cw)"
    and "\<forall>w\<in>set widths. isFinite (double w)"
  shows "centred_offset cw widths i \<noteq> NaN"
proof -
  have half_cw: "isFinite (js_half (double cw))"
    using assms(2) by (rule isFinite_double_half)
  have "\<forall>w\<in>set (map double (take i widths)). isFinite w"
    using assms(3) by (auto dest: in_set_takeD)
  then have sum: "foldl js_add (Finite 0) (map double (take i widths)) \<noteq> NaN"
    by (intro foldl_js_add_not_NaN) simp_all
  from assms(1,3) have "isFinite (double (widths ! i))" by simp
  then have half_w: "isFinite (js_half (double (widths ! i)))" by (rule isFinite_double_half)
  from js_sub_not_NaN_left [OF half_cw sum]
  have "js_sub (js_half (double cw)) (foldl js_add (Finite 0) (map double (take i widths))) \<noteq> NaN" .
  from js_sub_not_NaN_right [OF this half_w] show ?thesis by (simp add: centred_offset_def)
qed

lemma overflow_offset:
  "centred_offset 0 [2 ^ 1023, 2 ^ 1023, 1] 2 = NegInfinity"
proof -
  have small: "double 0 = Finite 0" "double 1 = Finite 1" "double (1 / 2) = Finite (1 / 2)"
    "double (0 / 2) = Finite 0"
    by code_simp+
  have "foldl js_add (Finite 0) (map double (take 2 [2 ^ 1023, 2 ^ 1023, 1])) = PosInfinity"
    by (simp add: double_top [simplified] double_overflow [simplified])
  then show ?thesis
    by (simp add: centred_offset_def small)
qed

text \<open>
  Claim C1. For an index of an existing slide the calculator returns
  \<open>containerWidth / 2 - (sum of the widths before index) - widths[index] / 2\<close>, computed
  in the arithmetic of numbers; with \<open>stickToEdges\<close> this value goes through
  \<open>clamp\<close> with the bounds \<open>min(0, containerWidth - frameWidth)\<close> and 0, without
  \<open>stickToEdges\<close> it is returned as it is. For finite measurements the clamped
  result is the lower bound when the value is below it, 0 when the value is above 0,
  and the value itself otherwise.
\<close>

theorem calculateTranslation_formula:
  assumes "0 \<le> index" and "index < int (length widths)"
  shows "calculateTranslation cw fw widths index False = centred_offset cw widths (nat index)
    \<and> calculateTranslation cw fw widths index True
      = clamp_num (centred_offset cw widths (nat index))
          (js_min (Finite 0) (js_sub (double cw) (double fw))) (Finite 0)
    \<and> (isFinite (double cw) \<and> isFinite (double fw) \<and> (\<forall>w\<in>set widths. isFinite (double w)) \<longrightarrow>
        calculateTranslation cw fw widths index True
        = (if js_less (centred_offset cw widths (nat index))
                (js_min (Finite 0) (js_sub (double cw) (double fw)))
           then js_min (Finite 0) (js_sub (double cw) (double fw))
           else if js_less (Finite 0) (centred_offset cw widths (nat index)) then Finite 0
           else centred_offset cw widths (nat index)))"
proof (intro conjI impI)
  show "calculateTranslation cw fw widths index False = centred_offset cw widths (nat index)"
    using assms by (simp add: calculateTranslation_in_range clamp_num_unbounded)
  show clamped: "calculateTranslation cw fw widths index True
      = clamp_num (centred_offset cw widths (nat index))
          (js_min (Finite 0) (js_sub (double cw) (double fw))) (Finite 0)"
    using assms by (simp add: calculateTranslation_in_range)
  assume fin: "isFinite (double cw) \<and> isFinite (double fw) \<and> (\<forall>w\<in>set widths. isFinite (double w))"
  from assms have "nat index < length widths" by simp
  with fin have t: "centred_offset cw widths (nat index) \<noteq> NaN"
    by (intro centred_offset_not_NaN) simp_all
  from fin have "js_sub (double cw) (double fw) \<noteq> NaN"
    by (intro js_sub_not_NaN_right) (simp_all add: double_not_NaN)
  then have lo: "js_min (Finite 0) (js_sub (double cw) (double fw)) \<noteq> NaN"
    by (intro js_min_not_NaN) simp_all
  from clamp_num_cases [OF t lo js_min_zero_bound] clamped
  show "calculateTranslation cw fw widths index True
        = (if js_less (centred_offset cw widths (nat index))
                (js_min (Finite 0) (js_sub (double cw) (double fw)))
           then js_min (Finite 0) (js_sub (double cw) (double fw))
           else if js_less (Finite 0) (centred_offset cw widths (nat index)) then Finite 0
           else centred_offset cw widths (nat index))"
    by simp
qed


theorem calculateTranslation_formula_witness:
  "(0::int) \<le> 2 \<and> (2::int) < int (length [100, 100, 100 :: real])
   \<and> isFinite (double 300) \<and> isFinite (double 100)
   \<and> calculateTranslation 300 300 [100, 100, 100] 2 False = Finite (- 100)
   \<and> calculateTranslation 300 300 [100, 100, 100] 2 True = Finite 0
   \<and> calculateTranslation 200 400 [100, 100, 100, 100] 3 False = Finite (- 250)
   \<and> calculateTranslation 200 400 [100, 100, 100, 100] 3 True = Finite (- 200)
   \<and> calculateTranslation 0 0 [9007199254740992, 1, 1] 1 False = Finite (- 9007199254740992)
   \<and> calculateTranslation 0 0 [2 ^ 1023, 2 ^ 1023, 1] 2 False = NegInfinity"
proof -
  have offsets:
    "centred_offset 300 [100, 100, 100] 2 = Finite (- 100)"
    "centred_offset 200 [100, 100, 100, 100] 3 = Finite (- 250)"
    "centred_offset 0 [9007199254740992, 1, 1] (Suc 0) = Finite (- 9007199254740992)"
    by code_simp+
  have bounds:
    "js_min (Finite 0) (js_sub (double 300) (double 300)) = Finite 0"
    "js_min (Finite 0) (js_sub (double 200) (double 400)) = Finite (- 200)"
    by code_simp+
  have finite: "isFinite (double 300)" "isFinite (double 100)"
    by code_simp+
  show ?thesis
    using calculateTranslation_formula [of 2 "[100, 100, 100]" 300 300]
      calculateTranslation_formula [of 3 "[100, 100, 100, 100]" 200 400]
      calculateTranslation_formula [of 1 "[9007199254740992, 1, 1]" 0 0]
      calculateTranslation_formula [of 2 "[2 ^ 1023, 2 ^ 1023, 1]" 0 0]
    by (simp add: offsets bounds finite clamp_num_def overflow_offset [simplified])
qed

text \<open>
  Claim C5, which the calculator does not satisfy as stated: at the index 0 of an empty
  carousel the result is not the offset 0, and at the index one past the last slide it
  is not the offset computed with a width of 0.
\<close>

theorem calculateTranslation_degenerate_counterexample:
  "calculateTranslation 300 0 [] 0 True \<noteq> Finite 0
   \<and> calculateTranslation 300 300 [100, 100, 100] 3 False \<noteq> Finite (- 150)"
  by (simp add: calculateTranslation_out_of_range)

text \<open>
  Claim C5, amended. The calculator is a total function with no throwing branch. With
  no slides, at any index, and at the index one past the last slide, the width read is
  \<open>undefined\<close> and the result is \<open>NaN\<close>, with and without \<open>stickToEdges\<close>.
\<close>

theorem calculateTranslation_degenerate:
  "calculateTranslation cw fw [] index stick = NaN
   \<and> calculateTranslation cw fw widths (int (length widths)) stick = NaN"
proof
  have "index < 0 \<or> int (length ([] :: real list)) \<le> index" by auto
  then show "calculateTranslation cw fw [] index stick = NaN"
    by (rule calculateTranslation_out_of_range)
next
  show "calculateTranslation cw fw widths (int (length widths)) stick = NaN"
    by (rule calculateTranslation_out_of_range) simp
qed

theorem calculateTranslation_degenerate_witness:
  "calculateTranslation 300 0 [] 0 True = NaN
   \<and> calculateTranslation 300 300 [100, 100, 100] 3 False = NaN"
  using calculateTranslation_degenerate [of 300 0 0 True]
    calculateTranslation_degenerate [of 300 300 0 False "[100, 100, 100]"]
  by simp

section \<open>Properties of the registry\<close>

lemma state_after_map_outcome [simp]: "state_after (map_outcome f out) = f (state_after out)"
  by (cases out) simp_all

lemma thrown_map_outcome [simp]: "thrown (map_outcome f out) = thrown out"
  by (cases out) simp_all

lemma threw_map_outcome [simp]: "threw (map_outcome f out) = threw out"
  by (cases out) simp_all


lemma thrown_and_then_Returned [simp]: "thrown (and_then out (\<lambda>s. Returned (g s))) = thrown out"
  by (cases out) simp_all

lemma threw_and_then_Returned [simp]: "threw (and_then out (\<lambda>s. Returned (g s))) = threw out"
  by (cases out) simp_all

lemma state_after_and_then_Returned:
  "state_after (and_then out (\<lambda>s. Returned (g s)))
   = (if threw out then state_after out else g (state_after out))"
  by (cases out) simp_all

lemma call_listener_fields:
  "lastArgs (state_after (call_listener cb args r)) = lastArgs r"
  "listeners (state_after (call_listener cb args r)) = listeners r"
  "delivered (state_after (call_listener cb args r)) = delivered r @ [(ident cb, args)]"
  "thrown (call_listener cb args r) = (if fails cb (delivered r) args then Some ListenerThrew else None)"
  by (simp_all add: call_listener_def Let_def)

lemma forEach_call_fields:
  "lastArgs (state_after (forEach_call ls args r)) = lastArgs r
   \<and> listeners (state_after (forEach_call ls args r)) = listeners r
   \<and> (thrown (forEach_call ls args r) = None \<or> thrown (forEach_call ls args r) = Some ListenerThrew)"
proof (induction ls arbitrary: r)
  case Nil
  then show ?case by simp
next
  case (Cons l ls)
  show ?case
  proof (cases "call_listener l args r")
    case (Returned r')
    with call_listener_fields(1,2) [of l args r] Cons.IH [of r'] show ?thesis by simp
  next
    case (Threw e r')
    with call_listener_fields(1,2,4) [of l args r] show ?thesis by (auto split: if_splits)
  qed
qed


lemma notify_fields:
  "lastArgs (state_after (notify args r)) = args"
  "listeners (state_after (notify args r)) = listeners r"
  using forEach_call_fields [of "listeners r" args "r\<lparr>lastArgs := args\<rparr>"]
  by (simp_all add: notify_def)



lemma notify_nobody: "listeners r = [] \<Longrightarrow> notify args r = Returned (r\<lparr>lastArgs := args\<rparr>)"
  by (simp add: notify_def)

lemma listen_handle_TypeError: "listen_handle cb r = Threw TypeError r"
  by (simp add: listen_handle_def set_method_def)

text \<open>
  Claim C9, evaluated on the code. A callback that never throws, of identity 7, listens
  on a registry whose last arguments are \<open>[0]\<close>. Calling the returned handle throws a
  \<open>TypeError\<close> and leaves the registry as it was: 7 is still a listener, and the next
  \<open>notify\<close> is delivered to it.
\<close>

theorem listen_handle_throws:
  "thrown (listen_handle (quiet_callback 7) (state_after (listen (quiet_callback 7) (registry_new [0::int]))))
     = Some TypeError
   \<and> map ident (listeners (state_after (listen_handle (quiet_callback 7)
        (state_after (listen (quiet_callback 7) (registry_new [0::int])))))) = [7]
   \<and> delivered (state_after (notify [1] (state_after (listen_handle (quiet_callback 7)
        (state_after (listen (quiet_callback 7) (registry_new [0::int])))))))
       = [(7, [0]), (7, [1])]"
  by code_simp

section \<open>Properties of the controller\<close>

lemma setCurrentSlide_eq:
  "setCurrentSlide slide s
   = map_outcome (\<lambda>r. s\<lparr>currentSlide := slide, eventRegistry := r\<rparr>)
       (notify [slide] (eventRegistry s))"
  by (simp add: setCurrentSlide_def)

lemma setCurrentSlide_fields:
  "currentSlide (state_after (setCurrentSlide k s)) = k"
  "eventRegistry (state_after (setCurrentSlide k s)) = state_after (notify [k] (eventRegistry s))"
  "thrown (setCurrentSlide k s) = thrown (notify [k] (eventRegistry s))"
  "threw (setCurrentSlide k s) = threw (notify [k] (eventRegistry s))"
  "innerElements (state_after (setCurrentSlide k s)) = innerElements s"
  "innerSlides (state_after (setCurrentSlide k s)) = innerSlides s"
  "config (state_after (setCurrentSlide k s)) = config s"
  "currentTranslation (state_after (setCurrentSlide k s)) = currentTranslation s"
  "transition (state_after (setCurrentSlide k s)) = transition s"
  "cursor (state_after (setCurrentSlide k s)) = cursor s"
  "pointerDown (state_after (setCurrentSlide k s)) = pointerDown s"
  "drag (state_after (setCurrentSlide k s)) = drag s"
  by (simp_all add: setCurrentSlide_eq)

lemma resetFrameSlides_fields:
  "currentSlide (resetFrameSlides s) = currentSlide s"
  "innerElements (resetFrameSlides s) = innerElements s"
  "innerSlides (resetFrameSlides s) = innerElements s"
  "eventRegistry (resetFrameSlides s) = eventRegistry s"
  "config (resetFrameSlides s) = config s"
  by (simp_all add: resetFrameSlides_def setTransition_def setTranslation_def setCursor_def Let_def)

lemma slideToCurrent_fields:
  "currentSlide (slideToCurrent L s) = currentSlide s"
  "innerElements (slideToCurrent L s) = innerElements s"
  "innerSlides (slideToCurrent L s) = innerSlides s"
  "eventRegistry (slideToCurrent L s) = eventRegistry s"
  "config (slideToCurrent L s) = config s"
  "transition (slideToCurrent L s) = transition s"
  "cursor (slideToCurrent L s) = cursor s"
  "pointerDown (slideToCurrent L s) = pointerDown s"
  "drag (slideToCurrent L s) = drag s"
  "currentTranslation (slideToCurrent L s)
     = measuredTranslation L s (currentSlide s) (stickToEdges (config s))"
  by (simp_all add: slideToCurrent_def slideToIndex_def setTranslation_def)


lemma new_siema_returns:
  "\<not> threw (new_siema cfg L elements)"
  "currentSlide (state_after (new_siema cfg L elements)) = 0"
  "innerElements (state_after (new_siema cfg L elements)) = elements"
  "innerSlides (state_after (new_siema cfg L elements)) = elements"
  "eventRegistry (state_after (new_siema cfg L elements))
     = \<lparr>listeners = [], lastArgs = [0], delivered = []\<rparr>"
  "config (state_after (new_siema cfg L elements)) = cfg"
  by (simp_all add: new_siema_def Let_def setCurrentSlide_eq resetFrameSlides_fields
      notify_nobody registry_new_def slideToCurrent_fields)

lemma goTo_fields:
  "currentSlide (state_after (goTo L index s)) = clamp index 0 (int (length (innerElements s)))"
  "eventRegistry (state_after (goTo L index s))
     = state_after (notify [clamp index 0 (int (length (innerElements s)))] (eventRegistry s))"
  "thrown (goTo L index s)
     = thrown (notify [clamp index 0 (int (length (innerElements s)))] (eventRegistry s))"
  "threw (goTo L index s)
     = threw (notify [clamp index 0 (int (length (innerElements s)))] (eventRegistry s))"
  "innerElements (state_after (goTo L index s)) = innerElements s"
  "innerSlides (state_after (goTo L index s)) = innerSlides s"
  "config (state_after (goTo L index s)) = config s"
  "transition (state_after (goTo L index s)) = transition s"
  "cursor (state_after (goTo L index s)) = cursor s"
  "pointerDown (state_after (goTo L index s)) = pointerDown s"
  "drag (state_after (goTo L index s)) = drag s"
  by (simp_all add: goTo_def Let_def state_after_and_then_Returned setCurrentSlide_fields
      slideToCurrent_fields)


lemma quiet_callback_fields [simp]:
  "ident (quiet_callback n) = n"
  "fails (quiet_callback n) tr args = False"
  by (simp_all add: quiet_callback_def)

lemma callback_failing_on_fields [simp]:
  "ident (callback_failing_on n p) = n"
  "fails (callback_failing_on n p) tr args = (args = p)"
  by (simp_all add: callback_failing_on_def)




section \<open>The lower bound of the current slide\<close>

text \<open>
  Claim C3, evaluated on the code. The example carousel is at slide 0 after its
  construction. \<open>remove(0)\<close> returns and leaves the current slide at \<open>-1\<close>, below 0.
\<close>

theorem remove_first_at_first:
  "currentSlide example_carousel = 0
   \<and> innerElements example_carousel = [10, 20, 30]
   \<and> \<not> threw (remove 0 example_carousel)
   \<and> currentSlide (state_after (remove 0 example_carousel)) = - 1
   \<and> innerElements (state_after (remove 0 example_carousel)) = [20, 30]"
  by code_simp

section \<open>Properties of insert and remove\<close>














section \<open>Late subscribers\<close>

lemma listen_fields:
  "lastArgs (state_after (listen cb r)) = lastArgs r"
  "listeners (state_after (listen cb r)) = set_add cb (listeners r)"
  "delivered (state_after (listen cb r))
     = (if lastArgs r = [] then delivered r else delivered r @ [(ident cb, lastArgs r)])"
  by (simp_all add: listen_def Let_def call_listener_fields)

lemma set_add_member: "ident cb \<in> set (map ident (set_add cb ls))"
  by (simp add: set_add_def)

lemma onChange_fields:
  "currentSlide (state_after (onChange cb s)) = currentSlide s"
  "innerElements (state_after (onChange cb s)) = innerElements s"
  "eventRegistry (state_after (onChange cb s)) = state_after (listen cb (eventRegistry s))"
  by (simp_all add: onChange_def)

lemma perform_invariant:
  "lastArgs (eventRegistry s) = [currentSlide s] \<Longrightarrow>
   lastArgs (eventRegistry (state_after (perform c s))) = [currentSlide (state_after (perform c s))]"
  by (cases c) (simp_all add: goTo_fields notify_fields onChange_fields listen_fields)

lemma perform_elements: "innerElements (state_after (perform c s)) = innerElements s"
  by (cases c) (simp_all add: goTo_fields onChange_fields)

lemma run_calls_Nil: "run_calls [] s = s"
  by (simp add: run_calls_def)

lemma run_calls_snoc: "run_calls (calls @ [c]) s = state_after (perform c (run_calls calls s))"
  by (simp add: run_calls_def)

lemma run_calls_append: "run_calls (xs @ ys) s = run_calls ys (run_calls xs s)"
  by (simp add: run_calls_def)

lemma run_calls_Cons: "run_calls (c # calls) s = run_calls calls (state_after (perform c s))"
  by (simp add: run_calls_def)

lemma run_calls_invariant:
  "lastArgs (eventRegistry s) = [currentSlide s] \<Longrightarrow>
   lastArgs (eventRegistry (run_calls calls s)) = [currentSlide (run_calls calls s)]"
  by (induction calls rule: rev_induct) (simp_all add: run_calls_Nil run_calls_snoc perform_invariant)

lemma run_calls_elements: "innerElements (run_calls calls s) = innerElements s"
  by (induction calls rule: rev_induct) (simp_all add: run_calls_Nil run_calls_snoc perform_elements)

lemma run_calls_subscriptions:
  "currentSlide (run_calls (map OnChange cbs) s) = currentSlide s"
  by (induction cbs arbitrary: s) (simp_all add: run_calls_Nil run_calls_Cons onChange_fields)

text \<open>
  Claim C7. Take a carousel after its construction and any sequence of \<open>goTo\<close> and
  \<open>onChange\<close> calls, throwing or not. The cached payload is its current slide, which
  is the clamped index of the last \<open>goTo\<close> when only subscriptions followed it.
  \<open>onChange\<close> of a callback then makes exactly one call, to that callback, with the
  current slide, within the subscription; the callback is a listener afterwards. For a
  callback that was never called before, this is its first delivery.
\<close>

theorem onChange_replays_latest:
  "lastArgs (eventRegistry (run_calls calls (state_after (new_siema cfg L0 elements))))
     = [currentSlide (run_calls calls (state_after (new_siema cfg L0 elements)))]
   \<and> delivered (eventRegistry (state_after (onChange cb
        (run_calls calls (state_after (new_siema cfg L0 elements))))))
     = delivered (eventRegistry (run_calls calls (state_after (new_siema cfg L0 elements))))
       @ [(ident cb, [currentSlide (run_calls calls (state_after (new_siema cfg L0 elements)))])]
   \<and> ident cb \<in> set (map ident (listeners (eventRegistry (state_after (onChange cb
        (run_calls calls (state_after (new_siema cfg L0 elements))))))))
   \<and> (ident cb \<notin> fst ` set (delivered (eventRegistry
          (run_calls calls (state_after (new_siema cfg L0 elements))))) \<longrightarrow>
      filter (\<lambda>d. fst d = ident cb) (delivered (eventRegistry (state_after (onChange cb
        (run_calls calls (state_after (new_siema cfg L0 elements)))))))
      = [(ident cb, [currentSlide (run_calls calls (state_after (new_siema cfg L0 elements)))])])
   \<and> currentSlide (run_calls (calls @ GoTo L i # map OnChange cbs)
        (state_after (new_siema cfg L0 elements)))
     = clamp i 0 (int (length elements))
   \<and> currentSlide (run_calls (map OnChange cbs) (state_after (new_siema cfg L0 elements))) = 0"
proof -
  let ?init = "state_after (new_siema cfg L0 elements)"
  let ?now = "run_calls calls ?init"
  have cache: "lastArgs (eventRegistry ?now) = [currentSlide ?now]"
    by (rule run_calls_invariant) (simp add: new_siema_returns)
  then have replay: "delivered (eventRegistry (state_after (onChange cb ?now)))
      = delivered (eventRegistry ?now) @ [(ident cb, [currentSlide ?now])]"
    by (simp add: onChange_fields listen_fields)
  have member: "ident cb \<in> set (map ident (listeners (eventRegistry (state_after (onChange cb ?now)))))"
    by (simp only: onChange_fields listen_fields set_add_member)
  have first: "ident cb \<notin> fst ` set (delivered (eventRegistry ?now)) \<longrightarrow>
      filter (\<lambda>d. fst d = ident cb) (delivered (eventRegistry (state_after (onChange cb ?now))))
      = [(ident cb, [currentSlide ?now])]"
  proof
    assume "ident cb \<notin> fst ` set (delivered (eventRegistry ?now))"
    then have "filter (\<lambda>d. fst d = ident cb) (delivered (eventRegistry ?now)) = []"
      by (force simp add: filter_empty_conv)
    with replay show "filter (\<lambda>d. fst d = ident cb)
        (delivered (eventRegistry (state_after (onChange cb ?now))))
      = [(ident cb, [currentSlide ?now])]"
      by simp
  qed
  have latest: "currentSlide (run_calls (calls @ GoTo L i # map OnChange cbs) ?init)
     = clamp i 0 (int (length elements))"
    by (simp add: run_calls_append run_calls_Cons run_calls_subscriptions goTo_fields
        run_calls_elements new_siema_returns)
  have none: "currentSlide (run_calls (map OnChange cbs) ?init) = 0"
    by (simp add: run_calls_subscriptions new_siema_returns)
  from cache replay member first latest none show ?thesis by blast
qed

theorem onChange_replays_latest_witness:
  "(3::nat) \<notin> fst ` set (delivered (eventRegistry (run_calls
        [OnChange (quiet_callback 7), GoTo (uniform_layout 300 300 100) 1,
         GoTo (uniform_layout 300 300 100) 5, GoTo (uniform_layout 300 300 100) 2]
        (state_after (new_siema default_config (uniform_layout 300 300 100) [10, 20, 30::nat])))))
   \<and> delivered (eventRegistry (state_after (onChange (quiet_callback 3) (run_calls
        [OnChange (quiet_callback 7), GoTo (uniform_layout 300 300 100) 1,
         GoTo (uniform_layout 300 300 100) 5, GoTo (uniform_layout 300 300 100) 2]
        (state_after (new_siema default_config (uniform_layout 300 300 100) [10, 20, 30::nat]))))))
     = [(7, [0]), (7, [1]), (7, [3]), (7, [2]), (3, [2])]
   \<and> filter (\<lambda>d. fst d = 3) (delivered (eventRegistry (state_after (onChange (quiet_callback 3)
        (run_calls
        [OnChange (quiet_callback 7), GoTo (uniform_layout 300 300 100) 1,
         GoTo (uniform_layout 300 300 100) 5, GoTo (uniform_layout 300 300 100) 2]
        (state_after (new_siema default_config (uniform_layout 300 300 100) [10, 20, 30::nat])))))))
     = [(3, [2])]"
proof -
  let ?calls = "[OnChange (quiet_callback 7), GoTo (uniform_layout 300 300 100) 1,
         GoTo (uniform_layout 300 300 100) 5, GoTo (uniform_layout 300 300 100) 2]"
  let ?now = "run_calls ?calls
        (state_after (new_siema default_config (uniform_layout 300 300 100) [10, 20, 30::nat]))"
  have before: "delivered (eventRegistry ?now) = [(7, [0]), (7, [1]), (7, [3]), (7, [2])]"
    "currentSlide ?now = 2"
    by code_simp+
  show ?thesis
    using onChange_replays_latest [of ?calls default_config "uniform_layout 300 300 100"
        "[10, 20, 30::nat]" "quiet_callback 3"]
    by (simp add: before)
qed

section \<open>Insert followed by remove\<close>








section \<open>Nearest-slide resolution\<close>



















section \<open>A click without movement\<close>

text \<open>
  Claim C6, evaluated on the code. The example carousel sticks to the edges, is at
  slide 0 with the translation 0, and has the listener 7, which never throws. The
  pointer goes down at 50 and up without a move in between, so no end position is
  recorded. By touch, the current slide and the translation stay and nothing is
  delivered. By mouse, the resolution runs: the current slide becomes 1 and the
  listener is called with 1.
\<close>

theorem mouse_click_moves:
  "currentSlide (example_with (quiet_callback 7)) = 0
   \<and> currentTranslation (example_with (quiet_callback 7)) = Finite 0
   \<and> endX (drag (touchstartHandler (50, 50) (example_with (quiet_callback 7)))) = Finite 0
   \<and> endX (drag (mousedownHandler 50 (example_with (quiet_callback 7)))) = Finite 0
   \<and> currentSlide (state_after (touchendHandler (uniform_layout 300 300 100)
        (touchstartHandler (50, 50) (example_with (quiet_callback 7))))) = 0
   \<and> currentTranslation (state_after (touchendHandler (uniform_layout 300 300 100)
        (touchstartHandler (50, 50) (example_with (quiet_callback 7))))) = Finite 0
   \<and> delivered (eventRegistry (state_after (touchendHandler (uniform_layout 300 300 100)
        (touchstartHandler (50, 50) (example_with (quiet_callback 7))))))
      = [(7, [0])]
   \<and> \<not> threw (mouseupHandler (uniform_layout 300 300 100)
        (mousedownHandler 50 (example_with (quiet_callback 7))))
   \<and> currentSlide (state_after (mouseupHandler (uniform_layout 300 300 100)
        (mousedownHandler 50 (example_with (quiet_callback 7))))) = 1
   \<and> delivered (eventRegistry (state_after (mouseupHandler (uniform_layout 300 300 100)
        (mousedownHandler 50 (example_with (quiet_callback 7))))))
      = [(7, [0]), (7, [1])]"
  by code_simp

end
